theory Spec2Isabelle
  imports Complex_Main "HOL-Library.Char_ord" "HOL-Library.List_Lexorder" "HOL-Library.Sublist"
begin

section \<open>Values of the order service\<close>

text \<open>
  The development embeds \<^verbatim>\<open>src/service_orders/index.js\<close>: the authentication
  middleware, the five order routes and the in-memory \<^verbatim>\<open>orders\<close> map.

  A JavaScript number is an IEEE-754 double. Its value is kept exactly: a finite double is
  the rational it denotes, and the two infinities (which \<^verbatim>\<open>JSON.parse\<close> yields for a
  literal such as \<^verbatim>\<open>1e999\<close>) are values of their own. \<^verbatim>\<open>NaN\<close> cannot come out of
  \<^verbatim>\<open>JSON.parse\<close> and is not a value here.
\<close>

datatype js_number = Finite rat | PosInfinity | NegInfinity

fun js_less :: "js_number \<Rightarrow> js_number \<Rightarrow> bool" where
  "js_less (Finite a) (Finite b) = (a < b)"
| "js_less (Finite a) PosInfinity = True"
| "js_less NegInfinity (Finite b) = True"
| "js_less NegInfinity PosInfinity = True"
| "js_less _ _ = False"

text \<open>\<^verbatim>\<open>Number.isInteger\<close>: finite and without a fractional part.\<close>

fun isInteger :: "js_number \<Rightarrow> bool" where
  "isInteger (Finite a) = (of_int \<lfloor>a\<rfloor> = a)"
| "isInteger _ = False"

text \<open>
  A parsed JSON document, as \<^verbatim>\<open>express.json()\<close> and \<^verbatim>\<open>JSON.parse\<close> hand it to the
  code. An object is the list of its own properties, each key once; a string is the list
  of its code units, so \<^const>\<open>length\<close> is JavaScript's \<^verbatim>\<open>.length\<close>. A request
  whose body is not JSON at all is turned away by \<^verbatim>\<open>express.json()\<close> before any route
  and is not among the requests here; a request without a JSON body has the body \<open>JObj []\<close>.
\<close>

datatype json =
    JNull
  | JBool bool
  | JNum js_number
  | JStr string
  | JArr "json list"
  | JObj "(string \<times> json) list"

text \<open>Reading a property: \<^verbatim>\<open>undefined\<close> (here \<open>None\<close>) when the key is absent.\<close>

fun get_prop :: "string \<Rightarrow> json \<Rightarrow> json option" where
  "get_prop k (JObj kvs) = map_of kvs k"
| "get_prop k _ = None"

section \<open>Orders and the store\<close>

text \<open>
  An order as the create handler builds it (lines 94-102). The status is always one of
  the four literals the code ever assigns; the two timestamps are ISO strings in the code
  and are kept as the millisecond counts they denote, which is what the sort comparator
  converts them back to.
\<close>

datatype status = Created | InProgress | Completed | Cancelled

fun status_name :: "status \<Rightarrow> string" where
  "status_name Created = ''created''"
| "status_name InProgress = ''in_progress''"
| "status_name Completed = ''completed''"
| "status_name Cancelled = ''cancelled''"

definition status_of_name :: "string \<Rightarrow> status option" where
  "status_of_name s =
     (if s = ''created'' then Some Created
      else if s = ''in_progress'' then Some InProgress
      else if s = ''completed'' then Some Completed
      else if s = ''cancelled'' then Some Cancelled
      else None)"

record item =
  product :: string
  quantity :: js_number
  price :: js_number

record order =
  id_order :: string
  userId :: string
  items :: "item list"
  status :: status
  totalAmount :: js_number
  createdAt :: int
  updatedAt :: int

text \<open>
  \<^verbatim>\<open>const orders = new Map()\<close>: a JavaScript \<^verbatim>\<open>Map\<close> keeps its entries in insertion
  order, and \<^verbatim>\<open>set\<close> on a key that is present replaces the value where it stands. The
  handlers mutate the stored object in place; here that is a \<open>orders_set\<close> under its key.
\<close>

type_synonym store = "(string \<times> order) list"

definition orders_get :: "store \<Rightarrow> string \<Rightarrow> order option" where
  "orders_get s k = map_of s k"

fun orders_set :: "store \<Rightarrow> string \<Rightarrow> order \<Rightarrow> store" where
  "orders_set [] k v = [(k, v)]"
| "orders_set ((k', v') # s) k v =
     (if k' = k then (k, v) # s else (k', v') # orders_set s k v)"

definition orders_values :: "store \<Rightarrow> order list" where
  "orders_values s = map snd s"

section \<open>Responses\<close>

text \<open>
  Every response is the envelope \<^verbatim>\<open>{success, data}\<close> or \<^verbatim>\<open>{success: false, error}\<close>
  with an HTTP status. The message texts of the source are Russian sentences; each is
  named here after the place it is written.
\<close>

datatype error_code =
    UNAUTHORIZED
  | VALIDATION_ERROR
  | ORDER_NOT_FOUND
  | FORBIDDEN
  | INVALID_STATUS_TRANSITION
  | CANNOT_CANCEL_COMPLETED
  | ALREADY_CANCELLED
  | INTERNAL_ERROR

text \<open>
  A Zod issue of \<^verbatim>\<open>createOrderSchema\<close> (lines 27-33), named by the check that raised it
  and, inside the array, the index of the item: together they stand for the issue's
  \<^verbatim>\<open>code\<close> and \<^verbatim>\<open>path\<close>.
\<close>

datatype issue =
    BodyNotObject
  | ItemsNotArray
  | ItemsTooFew
  | ItemsTooMany
  | ItemNotObject nat
  | ProductNotString nat
  | ProductTooShort nat
  | ProductTooLong nat
  | QuantityNotNumber nat
  | QuantityNotInteger nat
  | QuantityNotPositive nat
  | PriceNotNumber nat
  | PriceNotPositive nat

datatype message =
    Msg_unauthorized
  | Msg_order_not_found
  | Msg_forbidden_read
  | Msg_forbidden_update
  | Msg_forbidden_cancel
  | Msg_completed_is_final
  | Msg_cancelled_is_final
  | Msg_cannot_cancel_completed
  | Msg_already_cancelled
  | Msg_internal
  | Msg_product_required
  | Msg_quantity_positive
  | Msg_price_positive
  | Msg_items_min
  | Msg_items_max
  | Msg_invalid_status
  | Msg_zod_default

record pagination =
  pg_page :: int
  pg_limit :: int
  pg_total :: int
  pg_totalPages :: int
  pg_hasNext :: bool
  pg_hasPrev :: bool

datatype payload =
    OrderData order
  | ListData "order list" pagination

datatype response =
    Success nat payload
  | Failure nat error_code message "issue list option"

fun http_status :: "response \<Rightarrow> nat" where
  "http_status (Success c _) = c"
| "http_status (Failure c _ _ _) = c"

fun is_error :: "response \<Rightarrow> bool" where
  "is_error (Success _ _) = False"
| "is_error (Failure _ _ _ _) = True"

text \<open>
  What the code can throw: \<^verbatim>\<open>JSON.parse\<close> a \<^verbatim>\<open>SyntaxError\<close>, a call of
  \<^verbatim>\<open>.includes\<close> on a value that has none a \<^verbatim>\<open>TypeError\<close>. Whatever is thrown outside
  a \<^verbatim>\<open>try\<close> reaches the error handler of lines 443-449; the \<^verbatim>\<open>catch\<close> blocks of the
  create and update handlers answer a non-Zod error the same way.
\<close>

datatype js_exception = SyntaxError | TypeError

definition internal_error :: response where
  "internal_error = Failure 500 INTERNAL_ERROR Msg_internal None"

definition error_handler :: "js_exception \<Rightarrow> response" where
  "error_handler e = internal_error"

section \<open>Authentication middleware\<close>

text \<open>
  The two headers \<^verbatim>\<open>authMiddleware\<close> reads (lines 57-72). A header is a string or
  missing. For \<^verbatim>\<open>x-user-roles\<close> the outcome of \<^verbatim>\<open>JSON.parse\<close> on the header is
  part of the input: the header is falsy (missing or empty), or it does not parse, or it
  parses to a JSON value.
\<close>

datatype roles_header = RolesAbsent | RolesMalformed | RolesJson json

record headers =
  x_user_id :: "string option"
  x_user_roles :: roles_header

text \<open>\<^verbatim>\<open>req.userId\<close> and \<^verbatim>\<open>req.userRoles\<close>, as the middleware sets them.\<close>

record caller =
  req_userId :: string
  req_userRoles :: json

datatype 'a outcome = Next 'a | Respond response | Throw js_exception

definition unauthorized :: response where
  "unauthorized = Failure 401 UNAUTHORIZED Msg_unauthorized None"

definition authMiddleware :: "headers \<Rightarrow> caller outcome" where
  "authMiddleware h =
     (case x_user_id h of
        None \<Rightarrow> Respond unauthorized
      | Some u \<Rightarrow>
          if u = [] then Respond unauthorized
          else (case x_user_roles h of
                  RolesAbsent \<Rightarrow> Next \<lparr>req_userId = u, req_userRoles = JArr []\<rparr>
                | RolesMalformed \<Rightarrow> Throw SyntaxError
                | RolesJson j \<Rightarrow> Next \<lparr>req_userId = u, req_userRoles = j\<rparr>))"

text \<open>
  \<^verbatim>\<open>req.userRoles.includes('admin')\<close>. On an array it looks for an element strictly equal
  to the string; on a string it is a substring test; any other JSON value has no callable
  \<^verbatim>\<open>includes\<close> and the call throws.
\<close>

fun includes_admin :: "json \<Rightarrow> js_exception + bool" where
  "includes_admin (JArr xs) = Inr (JStr ''admin'' \<in> set xs)"
| "includes_admin (JStr s) = Inr (sublist ''admin'' s)"
| "includes_admin _ = Inl TypeError"

text \<open>
  The guard of lines 165, 267 and 363:
  \<^verbatim>\<open>order.userId !== req.userId && !req.userRoles.includes('admin')\<close>. The right operand
  is evaluated only when the caller is not the owner.
\<close>

definition access_denied :: "caller \<Rightarrow> order \<Rightarrow> js_exception + bool" where
  "access_denied c ord =
     (if userId ord \<noteq> req_userId c
      then (case includes_admin (req_userRoles c) of
              Inl e \<Rightarrow> Inl e
            | Inr b \<Rightarrow> Inr (\<not> b))
      else Inr False)"

definition not_found :: response where
  "not_found = Failure 404 ORDER_NOT_FOUND Msg_order_not_found None"

definition forbidden :: "message \<Rightarrow> response" where
  "forbidden m = Failure 403 FORBIDDEN m None"

text \<open>
  A route is the middleware followed by its handler. A handler either answers, leaving a
  store behind, or throws; no handler writes to the store before a point where it can
  throw, so a thrown exception leaves the store as it was.
\<close>

type_synonym handler_result = "js_exception + response \<times> store"

definition run_route :: "headers \<Rightarrow> store \<Rightarrow> (caller \<Rightarrow> handler_result) \<Rightarrow> response \<times> store" where
  "run_route h s handler =
     (case authMiddleware h of
        Respond r \<Rightarrow> (r, s)
      | Throw e \<Rightarrow> (error_handler e, s)
      | Next c \<Rightarrow>
          (case handler c of
             Inl e \<Rightarrow> (error_handler e, s)
           | Inr rs \<Rightarrow> rs))"

section \<open>Reading one order\<close>

text \<open>\<^verbatim>\<open>GET /api/v1/orders/:id\<close>, lines 150-184.\<close>

definition get_order :: "caller \<Rightarrow> string \<Rightarrow> store \<Rightarrow> handler_result" where
  "get_order c oid s =
     (case orders_get s oid of
        None \<Rightarrow> Inr (not_found, s)
      | Some ord \<Rightarrow>
          (case access_denied c ord of
             Inl e \<Rightarrow> Inl e
           | Inr True \<Rightarrow> Inr (forbidden Msg_forbidden_read, s)
           | Inr False \<Rightarrow> Inr (Success 200 (OrderData ord), s)))"

definition GET_order :: "headers \<Rightarrow> string \<Rightarrow> store \<Rightarrow> response \<times> store" where
  "GET_order h oid s = run_route h s (\<lambda>c. get_order c oid s)"

section \<open>Updating the status\<close>

text \<open>
  \<^verbatim>\<open>updateStatusSchema\<close> (lines 35-39): the body must be an object whose \<^verbatim>\<open>status\<close> is
  one of the four literals. The schema's own error map gives every issue of the
  \<^verbatim>\<open>status\<close> field the message of line 37.
\<close>

datatype status_issue = StatusBodyNotObject | StatusInvalid

fun status_issue_message :: "status_issue \<Rightarrow> message" where
  "status_issue_message StatusBodyNotObject = Msg_zod_default"
| "status_issue_message StatusInvalid = Msg_invalid_status"

definition updateStatusSchema_parse :: "json \<Rightarrow> status_issue list + status" where
  "updateStatusSchema_parse b =
     (case b of
        JObj kvs \<Rightarrow>
          (case map_of kvs ''status'' of
             Some (JStr v) \<Rightarrow>
               (case status_of_name v of
                  Some t \<Rightarrow> Inr t
                | None \<Rightarrow> Inl [StatusInvalid])
           | _ \<Rightarrow> Inl [StatusInvalid])
      | _ \<Rightarrow> Inl [StatusBodyNotObject])"

text \<open>
  \<^verbatim>\<open>PATCH /api/v1/orders/:id/status\<close>, lines 251-346. The whole body of the handler is
  inside \<^verbatim>\<open>try\<close>: the schema is parsed first (line 253), then the order is looked up.
  The \<^verbatim>\<open>catch\<close> answers a \<^verbatim>\<open>ZodError\<close> with 400 and the message of its first issue,
  anything else with 500. \<open>now\<close> is the clock read of line 306.
\<close>

definition update_status :: "caller \<Rightarrow> string \<Rightarrow> json \<Rightarrow> int \<Rightarrow> store \<Rightarrow> handler_result" where
  "update_status c oid b now s =
     (case updateStatusSchema_parse b of
        Inl [] \<Rightarrow> Inl TypeError
      | Inl (i # _) \<Rightarrow> Inr (Failure 400 VALIDATION_ERROR (status_issue_message i) None, s)
      | Inr target \<Rightarrow>
          (case orders_get s oid of
             None \<Rightarrow> Inr (not_found, s)
           | Some ord \<Rightarrow>
               (case access_denied c ord of
                  Inl e \<Rightarrow> Inr (internal_error, s)
                | Inr True \<Rightarrow> Inr (forbidden Msg_forbidden_update, s)
                | Inr False \<Rightarrow>
                    if status ord = Completed \<and> target \<noteq> Completed
                    then Inr (Failure 400 INVALID_STATUS_TRANSITION Msg_completed_is_final None, s)
                    else if status ord = Cancelled \<and> target \<noteq> Cancelled
                    then Inr (Failure 400 INVALID_STATUS_TRANSITION Msg_cancelled_is_final None, s)
                    else (let ord' = ord\<lparr>status := target, updatedAt := now\<rparr>
                          in Inr (Success 200 (OrderData ord'), orders_set s oid ord')))))"

definition PATCH_status :: "headers \<Rightarrow> string \<Rightarrow> json \<Rightarrow> int \<Rightarrow> store \<Rightarrow> response \<times> store" where
  "PATCH_status h oid b now s = run_route h s (\<lambda>c. update_status c oid b now s)"

section \<open>Cancelling\<close>

text \<open>\<^verbatim>\<open>DELETE /api/v1/orders/:id\<close>, lines 349-419. \<open>now\<close> is the clock read of line 402.\<close>

definition cancel_order :: "caller \<Rightarrow> string \<Rightarrow> int \<Rightarrow> store \<Rightarrow> handler_result" where
  "cancel_order c oid now s =
     (case orders_get s oid of
        None \<Rightarrow> Inr (not_found, s)
      | Some ord \<Rightarrow>
          (case access_denied c ord of
             Inl e \<Rightarrow> Inl e
           | Inr True \<Rightarrow> Inr (forbidden Msg_forbidden_cancel, s)
           | Inr False \<Rightarrow>
               if status ord = Completed
               then Inr (Failure 400 CANNOT_CANCEL_COMPLETED Msg_cannot_cancel_completed None, s)
               else if status ord = Cancelled
               then Inr (Failure 400 ALREADY_CANCELLED Msg_already_cancelled None, s)
               else (let ord' = ord\<lparr>status := Cancelled, updatedAt := now\<rparr>
                     in Inr (Success 200 (OrderData ord'), orders_set s oid ord'))))"

definition DELETE_order :: "headers \<Rightarrow> string \<Rightarrow> int \<Rightarrow> store \<Rightarrow> response \<times> store" where
  "DELETE_order h oid now s = run_route h s (\<lambda>c. cancel_order c oid now s)"

section \<open>Creating an order\<close>

text \<open>
  \<^verbatim>\<open>createOrderSchema\<close> (lines 27-33), read the way Zod evaluates it: a value of the
  wrong type raises one type issue and its refinements are not looked at; on a value of
  the right type every refinement is checked, in the order the schema chains them, and
  every failure is reported. An array reports its length issues first and then the issues
  of its elements in index order; an object reports its fields in the order of the schema.
\<close>

definition positive :: "js_number \<Rightarrow> bool" where
  "positive n = js_less (Finite 0) n"
















section \<open>Listing\<close>

text \<open>
  The query of \<^verbatim>\<open>GET /api/v1/orders\<close> (lines 187-248). \<open>q_page\<close> and \<open>q_limit\<close> are
  what \<^verbatim>\<open>parseInt\<close> makes of the two parameters: \<open>None\<close> for \<^verbatim>\<open>NaN\<close> (parameter
  missing or not starting with a number), otherwise the integer read, taken exactly. The
  one other value \<^verbatim>\<open>parseInt\<close> can give, an infinity for a run of more than 308
  digits, is left out. The other three are the raw strings, \<open>None\<close> when missing.
\<close>

record list_query =
  q_page :: "int option"
  q_limit :: "int option"
  q_sortBy :: "string option"
  q_sortOrder :: "string option"
  q_status :: "string option"

text \<open>\<^verbatim>\<open>parseInt(x) || d\<close>: \<^verbatim>\<open>NaN\<close> and \<^verbatim>\<open>0\<close> are falsy and give the default.\<close>

definition or_default :: "int option \<Rightarrow> int \<Rightarrow> int" where
  "or_default v d = (case v of None \<Rightarrow> d | Some n \<Rightarrow> if n = 0 then d else n)"

definition effective_page :: "list_query \<Rightarrow> int" where
  "effective_page q = max 1 (or_default (q_page q) 1)"

definition effective_limit :: "list_query \<Rightarrow> int" where
  "effective_limit q = min 100 (max 1 (or_default (q_limit q) 10))"

text \<open>\<^verbatim>\<open>Array.prototype.slice(start, end)\<close> with its treatment of negative and large indices.\<close>

definition slice :: "'a list \<Rightarrow> int \<Rightarrow> int \<Rightarrow> 'a list" where
  "slice xs start fin =
     (let len = int (length xs);
          k = (if start < 0 then max (len + start) 0 else min start len);
          final = (if fin < 0 then max (len + fin) 0 else min fin len)
      in take (nat (final - k)) (drop (nat k) xs))"

text \<open>
  Lines 195-197: the filter calls \<^verbatim>\<open>includes\<close> for each order the caller does not own,
  and throws with it.
\<close>

fun filter_visible :: "caller \<Rightarrow> order list \<Rightarrow> js_exception + order list" where
  "filter_visible c [] = Inr []"
| "filter_visible c (ord # os) =
     (if userId ord = req_userId c
      then (case filter_visible c os of Inl e \<Rightarrow> Inl e | Inr r \<Rightarrow> Inr (ord # r))
      else (case includes_admin (req_userRoles c) of
              Inl e \<Rightarrow> Inl e
            | Inr b \<Rightarrow>
                (case filter_visible c os of
                   Inl e \<Rightarrow> Inl e
                 | Inr r \<Rightarrow> Inr (if b then ord # r else r))))"

text \<open>Lines 200-202: a status that is not one of the four names is ignored.\<close>

definition filter_status :: "string option \<Rightarrow> order list \<Rightarrow> order list" where
  "filter_status st os =
     (case st of
        None \<Rightarrow> os
      | Some v \<Rightarrow>
          (case status_of_name v of
             None \<Rightarrow> os
           | Some t \<Rightarrow> filter (\<lambda>ord. status ord = t) os))"

text \<open>
  The value \<^verbatim>\<open>a[sortBy]\<close> as the comparator of lines 205-218 compares it: strings by
  code units, numbers by value, the two dates by their time value. The \<^verbatim>\<open>items\<close> array
  is compared through its string conversion, \<^verbatim>\<open>[object Object]\<close> once per item with
  commas between. Any other name gives a value for which neither \<^verbatim>\<open><\<close> nor \<^verbatim>\<open>>\<close>
  holds.
\<close>

datatype sort_value = SortStr string | SortNum js_number | SortNone

fun items_string :: "nat \<Rightarrow> string" where
  "items_string 0 = []"
| "items_string (Suc 0) = ''[object Object]''"
| "items_string (Suc n) = ''[object Object],'' @ items_string n"

definition sort_value :: "string \<Rightarrow> order \<Rightarrow> sort_value" where
  "sort_value sortBy ord =
     (if sortBy = ''createdAt'' then SortNum (Finite (of_int (createdAt ord)))
      else if sortBy = ''updatedAt'' then SortNum (Finite (of_int (updatedAt ord)))
      else if sortBy = ''id'' then SortStr (id_order ord)
      else if sortBy = ''userId'' then SortStr (userId ord)
      else if sortBy = ''status'' then SortStr (status_name (status ord))
      else if sortBy = ''totalAmount'' then SortNum (totalAmount ord)
      else if sortBy = ''items'' then SortStr (items_string (length (items ord)))
      else SortNone)"

fun value_less :: "sort_value \<Rightarrow> sort_value \<Rightarrow> bool" where
  "value_less (SortStr a) (SortStr b) = (a < b)"
| "value_less (SortNum a) (SortNum b) = js_less a b"
| "value_less _ _ = False"

definition compare_orders :: "string \<Rightarrow> int \<Rightarrow> order \<Rightarrow> order \<Rightarrow> int" where
  "compare_orders sortBy sortOrder a b =
     (let aVal = sort_value sortBy a; bVal = sort_value sortBy b
      in if value_less aVal bVal then - 1 * sortOrder
         else if value_less bVal aVal then 1 * sortOrder
         else 0)"

text \<open>
  \<^verbatim>\<open>Array.prototype.sort\<close> is stable: elements the comparator does not separate keep
  their order. A stable insertion sort gives the same array for a consistent comparator.
\<close>

fun insert_by :: "('a \<Rightarrow> 'a \<Rightarrow> int) \<Rightarrow> 'a \<Rightarrow> 'a list \<Rightarrow> 'a list" where
  "insert_by cmp x [] = [x]"
| "insert_by cmp x (y # ys) =
     (if cmp x y \<le> 0 then x # y # ys else y # insert_by cmp x ys)"

definition sort_by :: "('a \<Rightarrow> 'a \<Rightarrow> int) \<Rightarrow> 'a list \<Rightarrow> 'a list" where
  "sort_by cmp xs = foldr (insert_by cmp) xs []"

definition sort_field :: "list_query \<Rightarrow> string" where
  "sort_field q = (case q_sortBy q of None \<Rightarrow> ''createdAt'' | Some f \<Rightarrow> if f = [] then ''createdAt'' else f)"

definition sort_direction :: "list_query \<Rightarrow> int" where
  "sort_direction q = (if q_sortOrder q = Some ''asc'' then 1 else - 1)"

text \<open>
  \<open>userOrders\<close> as it stands at line 220: filtered by visibility and status, then sorted.
\<close>

definition userOrders :: "caller \<Rightarrow> list_query \<Rightarrow> store \<Rightarrow> js_exception + order list" where
  "userOrders c q s =
     (case filter_visible c (orders_values s) of
        Inl e \<Rightarrow> Inl e
      | Inr os \<Rightarrow>
          Inr (sort_by (compare_orders (sort_field q) (sort_direction q))
                 (filter_status (q_status q) os)))"

definition total_pages :: "int \<Rightarrow> int \<Rightarrow> int" where
  "total_pages total' limit = \<lceil>(of_int total' :: rat) / of_int limit\<rceil>"

text \<open>Lines 220-247 for a given page number and page size.\<close>

definition paginate :: "int \<Rightarrow> int \<Rightarrow> order list \<Rightarrow> payload" where
  "paginate page limit os =
     (let total' = int (length os);
          startIndex = (page - 1) * limit;
          endIndex = startIndex + limit
      in ListData (slice os startIndex endIndex)
           \<lparr>pg_page = page, pg_limit = limit, pg_total = total',
            pg_totalPages = total_pages total' limit,
            pg_hasNext = (endIndex < total'), pg_hasPrev = (page > 1)\<rparr>)"

text \<open>
  The handler. The log call of lines 225-232 evaluates
  \<^verbatim>\<open>req.userRoles.includes('admin')\<close> once more, whatever the orders are.
\<close>

definition list_orders :: "caller \<Rightarrow> list_query \<Rightarrow> store \<Rightarrow> handler_result" where
  "list_orders c q s =
     (case userOrders c q s of
        Inl e \<Rightarrow> Inl e
      | Inr os \<Rightarrow>
          (case includes_admin (req_userRoles c) of
             Inl e \<Rightarrow> Inl e
           | Inr isAdmin \<Rightarrow> Inr (Success 200 (paginate (effective_page q) (effective_limit q) os), s)))"

definition GET_orders :: "headers \<Rightarrow> list_query \<Rightarrow> store \<Rightarrow> response \<times> store" where
  "GET_orders h q s = run_route h s (\<lambda>c. list_orders c q s)"

section \<open>Sample data\<close>

text \<open>
  One stored order (the cement order of the specification's scenario) and three callers:
  its owner, another plain user, and an administrator.
\<close>

definition sample_order :: order where
  "sample_order = \<lparr>id_order = ''o1'', userId = ''u1'',
     items = [\<lparr>product = ''Cement'', quantity = Finite 50, price = Finite 350\<rparr>],
     status = Created, totalAmount = Finite 17500, createdAt = 1, updatedAt = 1\<rparr>"

definition owner_headers :: headers where
  "owner_headers = \<lparr>x_user_id = Some ''u1'', x_user_roles = RolesJson (JArr [JStr ''user''])\<rparr>"

definition stranger_headers :: headers where
  "stranger_headers = \<lparr>x_user_id = Some ''u2'', x_user_roles = RolesJson (JArr [JStr ''user''])\<rparr>"

definition admin_headers :: headers where
  "admin_headers =
     \<lparr>x_user_id = Some ''u3'', x_user_roles = RolesJson (JArr [JStr ''user'', JStr ''admin''])\<rparr>"

definition status_body :: "string \<Rightarrow> json" where
  "status_body v = JObj [(''status'', JStr v)]"

definition completed_order :: order where
  "completed_order = sample_order\<lparr>status := Completed\<rparr>"

definition cancelled_order :: order where
  "cancelled_order = sample_order\<lparr>status := Cancelled\<rparr>"

definition owner_caller :: caller where
  "owner_caller = \<lparr>req_userId = ''u1'', req_userRoles = JArr [JStr ''user'']\<rparr>"

definition stranger_caller :: caller where
  "stranger_caller = \<lparr>req_userId = ''u2'', req_userRoles = JArr [JStr ''user'']\<rparr>"

definition admin_caller :: caller where
  "admin_caller = \<lparr>req_userId = ''u3'', req_userRoles = JArr [JStr ''user'', JStr ''admin'']\<rparr>"

definition sample_query :: list_query where
  "sample_query = \<lparr>q_page = Some 1, q_limit = Some 10, q_sortBy = Some ''createdAt'',
     q_sortOrder = Some ''desc'', q_status = None\<rparr>"

section \<open>What the create request promises\<close>

text \<open>
  The specification's reading of a create request, written from its words and not from
  the schema: the body carries an array \<open>items\<close> of 1 to 100 items, each with a product
  name of 1 to 200 characters, a positive integer quantity and a positive price.
\<close>

fun is_object :: "json \<Rightarrow> bool" where
  "is_object (JObj kvs) = True"
| "is_object _ = False"


definition valid_product :: "json option \<Rightarrow> bool" where
  "valid_product ov =
     (case ov of Some (JStr p) \<Rightarrow> 1 \<le> length p \<and> length p \<le> 200 | _ \<Rightarrow> False)"

definition valid_quantity :: "json option \<Rightarrow> bool" where
  "valid_quantity ov = (case ov of Some (JNum q) \<Rightarrow> isInteger q \<and> positive q | _ \<Rightarrow> False)"

definition valid_price :: "json option \<Rightarrow> bool" where
  "valid_price ov = (case ov of Some (JNum r) \<Rightarrow> positive r | _ \<Rightarrow> False)"

definition valid_item :: "json \<Rightarrow> bool" where
  "valid_item v \<longleftrightarrow>
     valid_product (get_prop ''product'' v) \<and>
     valid_quantity (get_prop ''quantity'' v) \<and>
     valid_price (get_prop ''price'' v)"














text \<open>
  The fields of an order that are written once, when it is created: everything but the
  status and the time of the last update.
\<close>

definition fixed_fields :: "order \<Rightarrow> string \<times> string \<times> item list \<times> js_number \<times> int" where
  "fixed_fields ord = (id_order ord, userId ord, items ord, totalAmount ord, createdAt ord)"

section \<open>Basic facts\<close>

lemmas route_defs =
  run_route_def error_handler_def internal_error_def not_found_def forbidden_def unauthorized_def

lemmas sample_defs =
  sample_order_def owner_headers_def stranger_headers_def admin_headers_def status_body_def
  completed_order_def cancelled_order_def owner_caller_def stranger_caller_def admin_caller_def
  sample_query_def

lemma sample_callers:
  "authMiddleware owner_headers = Next owner_caller"
  "authMiddleware stranger_headers = Next stranger_caller"
  "authMiddleware admin_headers = Next admin_caller"
  by (simp_all add: authMiddleware_def sample_defs)

lemma parse_status_body: "updateStatusSchema_parse (status_body (status_name t)) = Inr t"
  by (cases t) (simp_all add: updateStatusSchema_parse_def status_body_def status_of_name_def)

lemma orders_get_set_same: "orders_get (orders_set s k v) k = Some v"
  by (induction s) (auto simp: orders_get_def)

lemma orders_get_set_other: "k' \<noteq> k \<Longrightarrow> orders_get (orders_set s k v) k' = orders_get s k'"
  by (induction s) (auto simp: orders_get_def)

text \<open>The guard lets a caller through exactly when it owns the order or is an admin.\<close>

lemma access_denied_False_iff:
  "access_denied c ord = Inr False \<longleftrightarrow>
     (userId ord = req_userId c \<or> includes_admin (req_userRoles c) = Inr True)"
  by (auto simp: access_denied_def split: sum.splits)

lemma access_denied_True_iff:
  "access_denied c ord = Inr True \<longleftrightarrow>
     (userId ord \<noteq> req_userId c \<and> includes_admin (req_userRoles c) = Inr False)"
  by (auto simp: access_denied_def split: sum.splits)

section \<open>Failed mutations leave the store alone\<close>

text \<open>
  Claim C9. Whenever an update-status or a cancel request is answered with an error
  response (whatever its code, so in particular NotFound, Forbidden, ValidationError,
  InvalidTransition, CannotCancelCompleted and AlreadyCancelled), the store after the
  request is the store before it: no order changed, added or removed.
\<close>

theorem error_leaves_store_unchanged:
  "(is_error (fst (PATCH_status h oid b now s)) \<longrightarrow> snd (PATCH_status h oid b now s) = s) \<and>
   (is_error (fst (DELETE_order h oid now s)) \<longrightarrow> snd (DELETE_order h oid now s) = s)"
  by (auto simp: PATCH_status_def DELETE_order_def route_defs update_status_def cancel_order_def
        Let_def
      split: outcome.splits sum.splits list.splits option.splits bool.splits if_splits)

theorem error_leaves_store_unchanged_witness:
  "is_error (fst (PATCH_status stranger_headers ''o1'' (status_body ''completed'') 7
                    [(''o1'', sample_order)])) \<and>
   snd (PATCH_status stranger_headers ''o1'' (status_body ''completed'') 7
          [(''o1'', sample_order)]) = [(''o1'', sample_order)] \<and>
   is_error (fst (DELETE_order stranger_headers ''o1'' 7 [(''o1'', sample_order)])) \<and>
   snd (DELETE_order stranger_headers ''o1'' 7 [(''o1'', sample_order)]) = [(''o1'', sample_order)]"
  using error_leaves_store_unchanged
    [of stranger_headers "''o1''" "status_body ''completed''" 7 "[(''o1'', sample_order)]"]
  by (simp add: PATCH_status_def DELETE_order_def route_defs update_status_def cancel_order_def
        authMiddleware_def updateStatusSchema_parse_def status_of_name_def orders_get_def
        access_denied_def sample_defs)

section \<open>Cancelling an order\<close>

text \<open>
  Claim C6. A cancel request by an authenticated caller on a stored order that the caller
  owns or administers: a completed order is refused with the code
  \<open>CANNOT_CANCEL_COMPLETED\<close>, a cancelled one with \<open>ALREADY_CANCELLED\<close>, both with
  status 400 and an untouched store; in the two other states the request succeeds and
  the stored order is now cancelled. These two codes differ from each other and from
  \<open>INVALID_STATUS_TRANSITION\<close>, which the cancel route never answers.
\<close>

theorem cancel_outcomes:
  assumes "authMiddleware h = Next c"
    and "orders_get s oid = Some ord"
    and "userId ord = req_userId c \<or> includes_admin (req_userRoles c) = Inr True"
  shows "(status ord = Completed \<longrightarrow>
            DELETE_order h oid now s =
              (Failure 400 CANNOT_CANCEL_COMPLETED Msg_cannot_cancel_completed None, s)) \<and>
         (status ord = Cancelled \<longrightarrow>
            DELETE_order h oid now s =
              (Failure 400 ALREADY_CANCELLED Msg_already_cancelled None, s)) \<and>
         (status ord \<noteq> Completed \<and> status ord \<noteq> Cancelled \<longrightarrow>
            DELETE_order h oid now s =
              (Success 200 (OrderData (ord\<lparr>status := Cancelled, updatedAt := now\<rparr>)),
               orders_set s oid (ord\<lparr>status := Cancelled, updatedAt := now\<rparr>)) \<and>
            orders_get (snd (DELETE_order h oid now s)) oid =
              Some (ord\<lparr>status := Cancelled, updatedAt := now\<rparr>)) \<and>
         CANNOT_CANCEL_COMPLETED \<noteq> INVALID_STATUS_TRANSITION \<and>
         ALREADY_CANCELLED \<noteq> INVALID_STATUS_TRANSITION \<and>
         CANNOT_CANCEL_COMPLETED \<noteq> ALREADY_CANCELLED \<and>
         (\<forall>m d. fst (DELETE_order h oid now s) \<noteq> Failure 400 INVALID_STATUS_TRANSITION m d)"
proof -
  from assms(3) have "access_denied c ord = Inr False"
    by (simp add: access_denied_False_iff)
  with assms(1,2) show ?thesis
    by (simp add: DELETE_order_def run_route_def cancel_order_def Let_def orders_get_set_same)
qed

theorem cancel_outcomes_witness:
  "authMiddleware owner_headers = Next owner_caller \<and>
   userId sample_order = req_userId owner_caller \<and>
   orders_get [(''o1'', sample_order)] ''o1'' = Some sample_order \<and>
   status sample_order \<noteq> Completed \<and> status sample_order \<noteq> Cancelled \<and>
   DELETE_order owner_headers ''o1'' 9 [(''o1'', sample_order)] =
     (Success 200 (OrderData (sample_order\<lparr>status := Cancelled, updatedAt := 9\<rparr>)),
      [(''o1'', sample_order\<lparr>status := Cancelled, updatedAt := 9\<rparr>)]) \<and>
   orders_get [(''o1'', completed_order)] ''o1'' = Some completed_order \<and>
   userId completed_order = req_userId owner_caller \<and>
   status completed_order = Completed \<and>
   DELETE_order owner_headers ''o1'' 9 [(''o1'', completed_order)] =
     (Failure 400 CANNOT_CANCEL_COMPLETED Msg_cannot_cancel_completed None,
      [(''o1'', completed_order)]) \<and>
   orders_get [(''o1'', cancelled_order)] ''o1'' = Some cancelled_order \<and>
   userId cancelled_order = req_userId owner_caller \<and>
   status cancelled_order = Cancelled \<and>
   DELETE_order owner_headers ''o1'' 9 [(''o1'', cancelled_order)] =
     (Failure 400 ALREADY_CANCELLED Msg_already_cancelled None, [(''o1'', cancelled_order)])"
  using cancel_outcomes [of owner_headers owner_caller "[(''o1'', sample_order)]" "''o1''"
      sample_order 9]
    cancel_outcomes [of owner_headers owner_caller "[(''o1'', completed_order)]" "''o1''"
      completed_order 9]
    cancel_outcomes [of owner_headers owner_caller "[(''o1'', cancelled_order)]" "''o1''"
      cancelled_order 9]
  by (simp add: authMiddleware_def orders_get_def sample_defs)

section \<open>Status transitions\<close>

text \<open>
  Claim C2. An update-status request that reaches the transition rule, that is, one by an
  authenticated caller who owns or administers the stored order and whose body carries one
  of the four valid statuses: when the order is completed or cancelled and the target is a
  different status, the request fails with 400 and the code \<open>INVALID_STATUS_TRANSITION\<close>
  and the store is unchanged; when the target equals the current status the request
  succeeds; when the order is created or in progress, every target is accepted and the
  stored order carries it afterwards.
\<close>

theorem update_status_transitions:
  assumes "authMiddleware h = Next c"
    and "orders_get s oid = Some ord"
    and "userId ord = req_userId c \<or> includes_admin (req_userRoles c) = Inr True"
    and "updateStatusSchema_parse b = Inr target"
  shows "((status ord = Completed \<or> status ord = Cancelled) \<and> target \<noteq> status ord \<longrightarrow>
            (\<exists>m. PATCH_status h oid b now s =
                   (Failure 400 INVALID_STATUS_TRANSITION m None, s))) \<and>
         (target = status ord \<longrightarrow>
            PATCH_status h oid b now s =
              (Success 200 (OrderData (ord\<lparr>status := target, updatedAt := now\<rparr>)),
               orders_set s oid (ord\<lparr>status := target, updatedAt := now\<rparr>))) \<and>
         (status ord = Created \<or> status ord = InProgress \<longrightarrow>
            PATCH_status h oid b now s =
              (Success 200 (OrderData (ord\<lparr>status := target, updatedAt := now\<rparr>)),
               orders_set s oid (ord\<lparr>status := target, updatedAt := now\<rparr>)) \<and>
            orders_get (snd (PATCH_status h oid b now s)) oid =
              Some (ord\<lparr>status := target, updatedAt := now\<rparr>))"
proof -
  from assms(3) have "access_denied c ord = Inr False"
    by (simp add: access_denied_False_iff)
  with assms(1,2,4) show ?thesis
    by (auto simp: PATCH_status_def run_route_def update_status_def Let_def orders_get_set_same)
qed

theorem update_status_transitions_witness:
  "authMiddleware owner_headers = Next owner_caller \<and>
   orders_get [(''o1'', cancelled_order)] ''o1'' = Some cancelled_order \<and>
   userId cancelled_order = req_userId owner_caller \<and>
   updateStatusSchema_parse (status_body ''in_progress'') = Inr InProgress \<and>
   status cancelled_order = Cancelled \<and> InProgress \<noteq> status cancelled_order \<and>
   PATCH_status owner_headers ''o1'' (status_body ''in_progress'') 7 [(''o1'', cancelled_order)] =
     (Failure 400 INVALID_STATUS_TRANSITION Msg_cancelled_is_final None,
      [(''o1'', cancelled_order)]) \<and>
   updateStatusSchema_parse (status_body ''cancelled'') = Inr Cancelled \<and>
   PATCH_status owner_headers ''o1'' (status_body ''cancelled'') 7 [(''o1'', cancelled_order)] =
     (Success 200 (OrderData (cancelled_order\<lparr>updatedAt := 7\<rparr>)),
      [(''o1'', cancelled_order\<lparr>updatedAt := 7\<rparr>)]) \<and>
   orders_get [(''o1'', sample_order)] ''o1'' = Some sample_order \<and>
   userId sample_order = req_userId owner_caller \<and>
   updateStatusSchema_parse (status_body ''completed'') = Inr Completed \<and>
   status sample_order = Created \<and>
   PATCH_status owner_headers ''o1'' (status_body ''completed'') 7 [(''o1'', sample_order)] =
     (Success 200 (OrderData (sample_order\<lparr>status := Completed, updatedAt := 7\<rparr>)),
      [(''o1'', sample_order\<lparr>status := Completed, updatedAt := 7\<rparr>)])"
  using update_status_transitions [of owner_headers owner_caller "[(''o1'', cancelled_order)]"
      "''o1''" cancelled_order "status_body ''in_progress''" InProgress 7]
    update_status_transitions [of owner_headers owner_caller "[(''o1'', cancelled_order)]"
      "''o1''" cancelled_order "status_body ''cancelled''" Cancelled 7]
    update_status_transitions [of owner_headers owner_caller "[(''o1'', sample_order)]"
      "''o1''" sample_order "status_body ''completed''" Completed 7]
  by (simp add: authMiddleware_def orders_get_def sample_defs updateStatusSchema_parse_def
        status_of_name_def PATCH_status_def run_route_def update_status_def access_denied_def)

section \<open>Lookup comes first, except after validation\<close>




section \<open>The ownership check\<close>

text \<open>
  Against claim C1 as stated: the order \<open>o1\<close> is stored and owned by \<open>u1\<close>; the caller
  \<open>u2\<close> holds the role \<open>user\<close> only. Its update-status request with the status
  \<open>shipped\<close> is answered with 400 \<open>VALIDATION_ERROR\<close>, not with 403.
\<close>

theorem stranger_invalid_body_not_forbidden:
  "orders_get [(''o1'', sample_order)] ''o1'' = Some sample_order \<and>
   authMiddleware stranger_headers = Next stranger_caller \<and>
   userId sample_order \<noteq> req_userId stranger_caller \<and>
   includes_admin (req_userRoles stranger_caller) = Inr False \<and>
   PATCH_status stranger_headers ''o1'' (status_body ''shipped'') 7 [(''o1'', sample_order)] =
     (Failure 400 VALIDATION_ERROR Msg_invalid_status None, [(''o1'', sample_order)])"
  by (simp add: PATCH_status_def route_defs update_status_def authMiddleware_def
        updateStatusSchema_parse_def status_of_name_def orders_get_def sample_defs)

text \<open>
  Claim C1, amended. For a stored order and an authenticated caller: when the caller is
  not the owner and its role data is an array (or string) without \<open>admin\<close>, read-single
  and cancel fail with 403 \<open>FORBIDDEN\<close>, and so does update-status provided its body
  carries a valid status; when the caller is the owner or holds the admin role, read-single
  returns the order, and cancel and update-status (with a valid status) go on to the
  status rules, answering 200 or 400 and never 403.
\<close>

theorem ownership_check:
  assumes "authMiddleware h = Next c" and "orders_get s oid = Some ord"
  shows "(userId ord \<noteq> req_userId c \<and> includes_admin (req_userRoles c) = Inr False \<longrightarrow>
            GET_order h oid s = (forbidden Msg_forbidden_read, s) \<and>
            DELETE_order h oid now s = (forbidden Msg_forbidden_cancel, s) \<and>
            (\<forall>target. updateStatusSchema_parse b = Inr target \<longrightarrow>
               PATCH_status h oid b now s = (forbidden Msg_forbidden_update, s))) \<and>
         (userId ord = req_userId c \<or> includes_admin (req_userRoles c) = Inr True \<longrightarrow>
            GET_order h oid s = (Success 200 (OrderData ord), s) \<and>
            http_status (fst (DELETE_order h oid now s)) \<in> {200, 400} \<and>
            (\<forall>target. updateStatusSchema_parse b = Inr target \<longrightarrow>
               http_status (fst (PATCH_status h oid b now s)) \<in> {200, 400}))"
proof (intro conjI impI)
  assume "userId ord \<noteq> req_userId c \<and> includes_admin (req_userRoles c) = Inr False"
  then have d: "access_denied c ord = Inr True"
    by (simp add: access_denied_True_iff)
  with assms show "GET_order h oid s = (forbidden Msg_forbidden_read, s)"
    by (simp add: GET_order_def run_route_def get_order_def)
  from d assms show "DELETE_order h oid now s = (forbidden Msg_forbidden_cancel, s)"
    by (simp add: DELETE_order_def run_route_def cancel_order_def)
  from d assms show "\<forall>target. updateStatusSchema_parse b = Inr target \<longrightarrow>
      PATCH_status h oid b now s = (forbidden Msg_forbidden_update, s)"
    by (simp add: PATCH_status_def run_route_def update_status_def)
next
  assume "userId ord = req_userId c \<or> includes_admin (req_userRoles c) = Inr True"
  then have d: "access_denied c ord = Inr False"
    by (simp add: access_denied_False_iff)
  with assms show "GET_order h oid s = (Success 200 (OrderData ord), s)"
    by (simp add: GET_order_def run_route_def get_order_def)
  from d assms show "http_status (fst (DELETE_order h oid now s)) \<in> {200, 400}"
    by (simp add: DELETE_order_def run_route_def cancel_order_def Let_def)
  from d assms show "\<forall>target. updateStatusSchema_parse b = Inr target \<longrightarrow>
      http_status (fst (PATCH_status h oid b now s)) \<in> {200, 400}"
    by (simp add: PATCH_status_def run_route_def update_status_def Let_def)
qed

theorem ownership_check_witness:
  "orders_get [(''o1'', sample_order)] ''o1'' = Some sample_order \<and>
   updateStatusSchema_parse (status_body ''completed'') = Inr Completed \<and>
   authMiddleware stranger_headers = Next stranger_caller \<and>
   userId sample_order \<noteq> req_userId stranger_caller \<and>
   includes_admin (req_userRoles stranger_caller) = Inr False \<and>
   GET_order stranger_headers ''o1'' [(''o1'', sample_order)] =
     (forbidden Msg_forbidden_read, [(''o1'', sample_order)]) \<and>
   DELETE_order stranger_headers ''o1'' 7 [(''o1'', sample_order)] =
     (forbidden Msg_forbidden_cancel, [(''o1'', sample_order)]) \<and>
   PATCH_status stranger_headers ''o1'' (status_body ''completed'') 7 [(''o1'', sample_order)] =
     (forbidden Msg_forbidden_update, [(''o1'', sample_order)]) \<and>
   authMiddleware owner_headers = Next owner_caller \<and>
   userId sample_order = req_userId owner_caller \<and>
   GET_order owner_headers ''o1'' [(''o1'', sample_order)] =
     (Success 200 (OrderData sample_order), [(''o1'', sample_order)]) \<and>
   authMiddleware admin_headers = Next admin_caller \<and>
   includes_admin (req_userRoles admin_caller) = Inr True \<and>
   GET_order admin_headers ''o1'' [(''o1'', sample_order)] =
     (Success 200 (OrderData sample_order), [(''o1'', sample_order)])"
proof -
  have found: "orders_get [(''o1'', sample_order)] ''o1'' = Some sample_order"
    by (simp add: orders_get_def)
  have parsed: "updateStatusSchema_parse (status_body ''completed'') = Inr Completed"
    using parse_status_body [of Completed] by simp
  have stranger: "userId sample_order \<noteq> req_userId stranger_caller \<and>
      includes_admin (req_userRoles stranger_caller) = Inr False"
    by (simp add: sample_order_def stranger_caller_def)
  have owner: "userId sample_order = req_userId owner_caller"
    by (simp add: sample_order_def owner_caller_def)
  have admin: "includes_admin (req_userRoles admin_caller) = Inr True"
    by (simp add: admin_caller_def)
  note s = ownership_check [OF sample_callers(2) found, of 7 "status_body ''completed''"]
  note w = ownership_check [OF sample_callers(1) found, of 7 "status_body ''completed''"]
  note a = ownership_check [OF sample_callers(3) found, of 7 "status_body ''completed''"]
  from s stranger parsed
  have "GET_order stranger_headers ''o1'' [(''o1'', sample_order)] =
          (forbidden Msg_forbidden_read, [(''o1'', sample_order)]) \<and>
        DELETE_order stranger_headers ''o1'' 7 [(''o1'', sample_order)] =
          (forbidden Msg_forbidden_cancel, [(''o1'', sample_order)]) \<and>
        PATCH_status stranger_headers ''o1'' (status_body ''completed'') 7 [(''o1'', sample_order)] =
          (forbidden Msg_forbidden_update, [(''o1'', sample_order)])"
    by blast
  moreover from w owner
  have "GET_order owner_headers ''o1'' [(''o1'', sample_order)] =
          (Success 200 (OrderData sample_order), [(''o1'', sample_order)])"
    by blast
  moreover from a admin
  have "GET_order admin_headers ''o1'' [(''o1'', sample_order)] =
          (Success 200 (OrderData sample_order), [(''o1'', sample_order)])"
    by blast
  ultimately show ?thesis
    using found parsed stranger owner admin sample_callers by blast
qed

section \<open>What the middleware accepts\<close>













section \<open>Listing and pagination\<close>

text \<open>
  The collection on samples: the default order is newest first; status names sort as
  strings; a plain user sees its own orders only, an administrator all of them.
\<close>

lemma default_sort_newest_first:
  "userOrders owner_caller
     \<lparr>q_page = None, q_limit = None, q_sortBy = None, q_sortOrder = None, q_status = None\<rparr>
     [(''o1'', sample_order), (''o2'', sample_order\<lparr>id_order := ''o2'', createdAt := 2\<rparr>)] =
   Inr [sample_order\<lparr>id_order := ''o2'', createdAt := 2\<rparr>, sample_order]"
  by (simp add: userOrders_def orders_values_def filter_status_def sort_by_def sort_field_def
        sort_direction_def compare_orders_def sort_value_def sample_order_def owner_caller_def)

lemma sort_ascending_by_status:
  "userOrders owner_caller
     \<lparr>q_page = None, q_limit = None, q_sortBy = Some ''status'', q_sortOrder = Some ''asc'',
      q_status = None\<rparr>
     [(''o1'', sample_order), (''o2'', cancelled_order), (''o3'', completed_order)] =
   Inr [cancelled_order, completed_order, sample_order]"
  by (simp add: userOrders_def orders_values_def filter_status_def sort_by_def sort_field_def
        sort_direction_def compare_orders_def sort_value_def sample_order_def owner_caller_def
        cancelled_order_def completed_order_def)

lemma stranger_sees_nothing_admin_sees_all:
  "userOrders stranger_caller sample_query [(''o1'', sample_order)] = Inr [] \<and>
   userOrders admin_caller sample_query [(''o1'', sample_order)] = Inr [sample_order]"
  by (simp add: userOrders_def orders_values_def filter_status_def sort_by_def
        sample_query_def stranger_caller_def admin_caller_def sample_order_def)


lemma filter_visible_eq:
  "includes_admin (req_userRoles c) = Inr b \<Longrightarrow>
   filter_visible c os = Inr (filter (\<lambda>ord. userId ord = req_userId c \<or> b) os)"
  by (induction os) auto

lemma effective_page_eq:
  "effective_page q = max 1 (case q_page q of None \<Rightarrow> 1 | Some n \<Rightarrow> n)"
  by (auto simp: effective_page_def or_default_def split: option.splits)

lemma effective_limit_eq:
  "effective_limit q =
     (case q_limit q of None \<Rightarrow> 10 | Some n \<Rightarrow> if n = 0 then 10 else min 100 (max 1 n))"
  by (auto simp: effective_limit_def or_default_def split: option.splits)

lemma effective_limit_range: "1 \<le> effective_limit q \<and> effective_limit q \<le> 100"
  by (auto simp: effective_limit_def)

lemma effective_page_pos: "1 \<le> effective_page q"
  by (auto simp: effective_page_def)

lemma slice_nonneg:
  assumes "0 \<le> a" and "0 \<le> n"
  shows "slice os a (a + n) = take (nat n) (drop (nat a) os)"
proof (cases "a \<le> int (length os)")
  case True
  show ?thesis
  proof (cases "a + n \<le> int (length os)")
    case True
    with assms \<open>a \<le> int (length os)\<close> show ?thesis
      by (simp add: slice_def Let_def min_def)
  next
    case False
    with assms \<open>a \<le> int (length os)\<close>
    have "nat (int (length os) - a) = length (drop (nat a) os)" by simp
    moreover have "length (drop (nat a) os) \<le> nat n" using False assms by simp
    ultimately show ?thesis
      using False assms \<open>a \<le> int (length os)\<close>
      by (simp add: slice_def Let_def min_def)
  qed
next
  case False
  with assms show ?thesis
    by (simp add: slice_def Let_def min_def)
qed

lemma slice_page:
  assumes "1 \<le> p" and "0 \<le> l"
  shows "slice os ((p - 1) * l) ((p - 1) * l + l) = take (nat l) (drop (nat ((p - 1) * l)) os)"
  using assms by (intro slice_nonneg) simp_all

lemma total_pages_upper:
  assumes "1 \<le> l"
  shows "t \<le> total_pages t l * l"
proof -
  have "(of_int t :: rat) \<le> of_int \<lceil>(of_int t :: rat) / of_int l\<rceil> * of_int l"
    using assms by (intro ceiling_divide_upper) simp
  then have "(of_int t :: rat) \<le> of_int (total_pages t l * l)"
    by (simp add: total_pages_def)
  then show ?thesis by (simp only: of_int_le_iff)
qed

lemma total_pages_lower:
  assumes "1 \<le> l"
  shows "(total_pages t l - 1) * l < t"
proof -
  have "(of_int \<lceil>(of_int t :: rat) / of_int l\<rceil> - 1) * of_int l < (of_int t :: rat)"
    using assms by (intro ceiling_divide_lower) simp
  then have "(of_int ((total_pages t l - 1) * l) :: rat) < of_int t"
    by (simp add: total_pages_def)
  then show ?thesis by (simp only: of_int_less_iff)
qed

lemma has_next_iff:
  assumes "1 \<le> l"
  shows "(p - 1) * l + l < t \<longleftrightarrow> p < total_pages t l"
proof
  assume "(p - 1) * l + l < t"
  then have "p * l < t" by (simp add: algebra_simps)
  also have "t \<le> total_pages t l * l" by (rule total_pages_upper [OF assms])
  finally show "p < total_pages t l" using assms by (simp add: mult_less_cancel_right)
next
  assume "p < total_pages t l"
  then have "p \<le> total_pages t l - 1" by simp
  then have "p * l \<le> (total_pages t l - 1) * l" using assms by (simp add: mult_right_mono)
  also have "\<dots> < t" by (rule total_pages_lower [OF assms])
  finally show "(p - 1) * l + l < t" by (simp add: algebra_simps)
qed

lemma total_pages_real:
  "total_pages t l = \<lceil>real_of_int t / real_of_int l\<rceil>"
proof -
  have "real_of_int t / real_of_int l = of_rat (of_int t / of_int l)"
    by (simp add: of_rat_divide)
  then show ?thesis
    by (simp add: total_pages_def)
qed

lemma page_length:
  assumes "0 \<le> m" and "0 \<le> l"
  shows "int (length (take (nat l) (drop (nat m) os))) = min l (max 0 (int (length os) - m))"
  using assms by (simp add: min_def max_def) linarith

lemma page_sizes_sum:
  assumes "1 \<le> l"
  shows "(\<Sum>p = 1..int n. int (length (take (nat l) (drop (nat ((p - 1) * l)) os)))) =
           min (int n * l) (int (length os))"
proof -
  define f where "f p = int (length (take (nat l) (drop (nat ((p - 1) * l)) os)))" for p
  have "(\<Sum>p = 1..int n. f p) = min (int n * l) (int (length os))"
  proof (induction n)
    case 0
    show ?case by simp
  next
    case (Suc n)
    have set_eq: "{1..int (Suc n)} = insert (int n + 1) {1..int n}"
      by auto
    have m0: "0 \<le> int n * l" using assms by simp
    have "f (int n + 1) = int (length (take (nat l) (drop (nat (int n * l)) os)))"
      by (simp add: f_def)
    also have "\<dots> = min l (max 0 (int (length os) - int n * l))"
      using m0 assms by (intro page_length) simp_all
    finally have last: "f (int n + 1) = min l (max 0 (int (length os) - int n * l))" .
    have "(\<Sum>p = 1..int (Suc n). f p) = f (int n + 1) + (\<Sum>p = 1..int n. f p)"
      unfolding set_eq by (rule sum.insert) simp_all
    also have "\<dots> = min l (max 0 (int (length os) - int n * l)) + min (int n * l) (int (length os))"
      by (simp only: last Suc.IH)
    also have "\<dots> = min (int n * l + l) (int (length os))"
      using m0 assms by (simp add: min_def max_def)
    also have "int n * l + l = int (Suc n) * l"
      by (simp add: algebra_simps)
    finally show ?case .
  qed
  then show ?thesis by (simp only: f_def)
qed

lemma page_sizes_total:
  assumes "1 \<le> l"
  shows "(\<Sum>p = 1..total_pages (int (length os)) l.
            int (length (take (nat l) (drop (nat ((p - 1) * l)) os)))) = int (length os)"
proof -
  let ?T = "total_pages (int (length os)) l"
  have up: "int (length os) \<le> ?T * l" by (rule total_pages_upper [OF assms])
  have "(0::rat) \<le> of_int (int (length os)) / of_int l"
    using assms by (intro divide_nonneg_nonneg) simp_all
  then have "0 \<le> ?T"
    unfolding total_pages_def by (simp only: zero_le_ceiling)
  then obtain n where n: "?T = int n" by (metis nonneg_int_cases)
  show ?thesis
    unfolding n using page_sizes_sum [OF assms, where n = n and os = os] up
    by (simp add: n)
qed

lemma total_pages_div: "total_pages t l = - (- t div l)"
  by (simp add: total_pages_def ceiling_divide_eq_div)

text \<open>The specification's scenario: 25 matching orders, page 1, limit 10.\<close>

lemma pagination_scenario:
  "paginate 1 10 (replicate 25 ord) =
     ListData (replicate 10 ord)
       \<lparr>pg_page = 1, pg_limit = 10, pg_total = 25, pg_totalPages = 3,
        pg_hasNext = True, pg_hasPrev = False\<rparr>"
  by (simp add: paginate_def slice_def total_pages_div Let_def)

text \<open>
  Against claim C5 as stated: with \<^verbatim>\<open>limit=0\<close> the effective page size is the default
  10, not the value 1 that clamping 0 into the range from 1 to 100 gives, because
  \<^verbatim>\<open>parseInt(...) || 10\<close> takes 0 for a missing value.
\<close>

theorem limit_zero_is_not_clamped:
  "q_limit (sample_query\<lparr>q_limit := Some 0\<rparr>) = Some 0 \<and>
   effective_limit (sample_query\<lparr>q_limit := Some 0\<rparr>) = 10 \<and>
   effective_limit (sample_query\<lparr>q_limit := Some 0\<rparr>) \<noteq> min 100 (max 1 0) \<and>
   GET_orders owner_headers (sample_query\<lparr>q_limit := Some 0\<rparr>) [(''o1'', sample_order)] =
     (Success 200 (ListData [sample_order]
        \<lparr>pg_page = 1, pg_limit = 10, pg_total = 1, pg_totalPages = 1,
         pg_hasNext = False, pg_hasPrev = False\<rparr>), [(''o1'', sample_order)])"
  by (simp add: effective_limit_def effective_page_def or_default_def sample_query_def
        GET_orders_def run_route_def authMiddleware_def owner_headers_def list_orders_def
        userOrders_def orders_values_def filter_status_def sort_by_def paginate_def slice_def
        total_pages_div Let_def sample_order_def)

text \<open>
  Claim C5, amended. A list request of an authenticated caller whose role data is an
  array or a string succeeds, and with \<open>os\<close> the filtered and sorted collection:
  the page number is the maximum of 1 and the requested page (1 when none is given); the
  page size is 10 when none is given or when 0 is given, and otherwise the requested size
  clamped into the range from 1 to 100; the total is the length of \<open>os\<close>; the number of
  pages is the ceiling of total over page size; the orders returned are those of \<open>os\<close>
  at the positions from (page - 1) * size up to page * size; the sizes of the pages 1 to
  totalPages add up to the total; hasNext holds exactly when page < totalPages, and
  hasPrev exactly when page > 1.
\<close>

theorem list_pagination:
  assumes "authMiddleware h = Next c" and "includes_admin (req_userRoles c) = Inr isAdmin"
  shows "\<exists>os pg.
     userOrders c q s = Inr os \<and>
     GET_orders h q s =
       (Success 200 (ListData (take (nat (pg_limit pg))
                                 (drop (nat ((pg_page pg - 1) * pg_limit pg)) os)) pg), s) \<and>
     pg_page pg = max 1 (case q_page q of None \<Rightarrow> 1 | Some n \<Rightarrow> n) \<and>
     pg_limit pg =
       (case q_limit q of None \<Rightarrow> 10 | Some n \<Rightarrow> if n = 0 then 10 else min 100 (max 1 n)) \<and>
     1 \<le> pg_limit pg \<and> pg_limit pg \<le> 100 \<and>
     pg_total pg = int (length os) \<and>
     pg_totalPages pg = \<lceil>real_of_int (pg_total pg) / real_of_int (pg_limit pg)\<rceil> \<and>
     (\<Sum>p = 1..pg_totalPages pg.
        int (length (take (nat (pg_limit pg)) (drop (nat ((p - 1) * pg_limit pg)) os)))) =
       pg_total pg \<and>
     (pg_hasNext pg \<longleftrightarrow> pg_page pg < pg_totalPages pg) \<and>
     (pg_hasPrev pg \<longleftrightarrow> pg_page pg > 1)"
proof -
  let ?p = "effective_page q" and ?l = "effective_limit q"
  have l1: "1 \<le> ?l" and l100: "?l \<le> 100"
    using effective_limit_range [of q] by simp_all
  have p1: "1 \<le> ?p" by (rule effective_page_pos)
  obtain vis where vis: "filter_visible c (orders_values s) = Inr vis"
    using filter_visible_eq [OF assms(2)] by blast
  define os where "os = sort_by (compare_orders (sort_field q) (sort_direction q))
                          (filter_status (q_status q) vis)"
  define pg where "pg = \<lparr>pg_page = ?p, pg_limit = ?l, pg_total = int (length os),
      pg_totalPages = total_pages (int (length os)) ?l,
      pg_hasNext = ((?p - 1) * ?l + ?l < int (length os)), pg_hasPrev = (?p > 1)\<rparr>"
  have uo: "userOrders c q s = Inr os"
    by (simp add: userOrders_def vis os_def)
  have sl: "slice os ((?p - 1) * ?l) ((?p - 1) * ?l + ?l) =
              take (nat ?l) (drop (nat ((?p - 1) * ?l)) os)"
    using p1 l1 by (intro slice_page) simp_all
  have resp: "GET_orders h q s =
       (Success 200 (ListData (take (nat (pg_limit pg))
                                 (drop (nat ((pg_page pg - 1) * pg_limit pg)) os)) pg), s)"
    using assms uo sl
    by (simp add: GET_orders_def run_route_def list_orders_def paginate_def Let_def pg_def)
  have pages: "(\<Sum>p = 1..pg_totalPages pg.
        int (length (take (nat (pg_limit pg)) (drop (nat ((p - 1) * pg_limit pg)) os)))) =
       pg_total pg"
    using page_sizes_total [OF l1, of os] by (simp add: pg_def)
  have nxt: "pg_hasNext pg \<longleftrightarrow> pg_page pg < pg_totalPages pg"
    using has_next_iff [OF l1, of ?p "int (length os)"] by (simp add: pg_def)
  have tp: "pg_totalPages pg = \<lceil>real_of_int (pg_total pg) / real_of_int (pg_limit pg)\<rceil>"
    by (simp add: pg_def total_pages_real)
  have pe: "pg_page pg = max 1 (case q_page q of None \<Rightarrow> 1 | Some n \<Rightarrow> n)"
    by (simp add: pg_def effective_page_eq)
  have le: "pg_limit pg =
       (case q_limit q of None \<Rightarrow> 10 | Some n \<Rightarrow> if n = 0 then 10 else min 100 (max 1 n))"
    by (simp add: pg_def effective_limit_eq)
  have rest: "1 \<le> pg_limit pg \<and> pg_limit pg \<le> 100 \<and> pg_total pg = int (length os) \<and>
      (pg_hasPrev pg \<longleftrightarrow> pg_page pg > 1)"
    using l1 l100 by (simp add: pg_def)
  from uo resp pe le rest tp pages nxt show ?thesis
    by blast
qed

theorem list_pagination_witness:
  "authMiddleware owner_headers = Next owner_caller \<and>
   includes_admin (req_userRoles owner_caller) = Inr False \<and>
   GET_orders owner_headers sample_query [(''o1'', sample_order)] =
     (Success 200 (ListData [sample_order]
        \<lparr>pg_page = 1, pg_limit = 10, pg_total = 1, pg_totalPages = 1,
         pg_hasNext = False, pg_hasPrev = False\<rparr>), [(''o1'', sample_order)])"
proof -
  have a: "authMiddleware owner_headers = Next owner_caller"
    by (rule sample_callers)
  have b: "includes_admin (req_userRoles owner_caller) = Inr False"
    by (simp add: owner_caller_def)
  have uo: "userOrders owner_caller sample_query
               [(''o1'', sample_order)] = Inr [sample_order]"
    by (simp add: userOrders_def orders_values_def filter_status_def sample_query_def
          sort_by_def sample_order_def owner_caller_def)
  from list_pagination [OF a b, of sample_query "[(''o1'', sample_order)]"] uo
  obtain pg where
    r: "GET_orders owner_headers sample_query [(''o1'', sample_order)] =
       (Success 200 (ListData (take (nat (pg_limit pg))
           (drop (nat ((pg_page pg - 1) * pg_limit pg)) [sample_order])) pg), [(''o1'', sample_order)])"
    and p: "pg_page pg = 1" and l: "pg_limit pg = 10" and t: "pg_total pg = 1"
    and tp: "pg_totalPages pg = \<lceil>real_of_int (pg_total pg) / real_of_int (pg_limit pg)\<rceil>"
    and n: "pg_hasNext pg \<longleftrightarrow> pg_page pg < pg_totalPages pg"
    and v: "pg_hasPrev pg \<longleftrightarrow> pg_page pg > 1"
    by (auto simp: sample_query_def)
  have tp1: "pg_totalPages pg = 1"
    using tp t l by (simp add: ceiling_eq_iff)
  have "pg = \<lparr>pg_page = 1, pg_limit = 10, pg_total = 1, pg_totalPages = 1,
         pg_hasNext = False, pg_hasPrev = False\<rparr>"
    using p l t tp1 n v by (cases pg) simp
  with r p l a b show ?thesis by simp
qed

section \<open>Validation of a create request\<close>


















lemma valid_item_object: "valid_item v \<Longrightarrow> is_object v"
  by (cases v) (simp_all add: valid_item_def valid_product_def)




























section \<open>Fields fixed at creation\<close>

text \<open>
  What a create request stores has the status \<open>created\<close> and the total that
  \<open>compute_total\<close> gives (see the theorem on create requests above). No update-status
  and no cancel request, whatever its outcome, changes the total, the items, the owner,
  the identifier or the creation time of any stored order, nor adds or removes one.
\<close>

lemma fixed_fields_touch [simp]:
  "fixed_fields (ord\<lparr>status := t, updatedAt := now\<rparr>) = fixed_fields ord"
  by (simp add: fixed_fields_def)

lemma orders_set_fixed:
  assumes "orders_get s oid = Some ord" and "fixed_fields ord' = fixed_fields ord"
  shows "map_option fixed_fields (orders_get (orders_set s oid ord') k) =
         map_option fixed_fields (orders_get s k)"
proof (cases "k = oid")
  case True
  with assms show ?thesis by (simp add: orders_get_set_same)
next
  case False
  then show ?thesis by (simp add: orders_get_set_other)
qed

lemma update_status_fixed:
  assumes "update_status c oid b now s = Inr (r, s')"
  shows "map_option fixed_fields (orders_get s' k) = map_option fixed_fields (orders_get s k)"
proof (cases "s' = s")
  case True
  then show ?thesis by simp
next
  case False
  with assms obtain ord t where "orders_get s oid = Some ord"
    and "s' = orders_set s oid (ord\<lparr>status := t, updatedAt := now\<rparr>)"
    by (auto simp: update_status_def Let_def
        split: sum.splits list.splits option.splits bool.splits if_splits)
  then show ?thesis by (simp add: orders_set_fixed)
qed

lemma cancel_order_fixed:
  assumes "cancel_order c oid now s = Inr (r, s')"
  shows "map_option fixed_fields (orders_get s' k) = map_option fixed_fields (orders_get s k)"
proof (cases "s' = s")
  case True
  then show ?thesis by simp
next
  case False
  with assms obtain ord t where "orders_get s oid = Some ord"
    and "s' = orders_set s oid (ord\<lparr>status := t, updatedAt := now\<rparr>)"
    by (auto simp: cancel_order_def Let_def
        split: sum.splits option.splits bool.splits if_splits)
  then show ?thesis by (simp add: orders_set_fixed)
qed

lemma run_route_cases:
  "run_route h s handler = (r, s') \<Longrightarrow>
     s' = s \<or> (\<exists>c. authMiddleware h = Next c \<and> handler c = Inr (r, s'))"
  by (auto simp: run_route_def split: outcome.splits sum.splits)

lemma mutation_keeps_fixed_fields:
  "map_option fixed_fields (orders_get (snd (PATCH_status h oid b now s)) k) =
     map_option fixed_fields (orders_get s k) \<and>
   map_option fixed_fields (orders_get (snd (DELETE_order h oid now s)) k) =
     map_option fixed_fields (orders_get s k)"
proof
  obtain r s' where p: "PATCH_status h oid b now s = (r, s')" by (cases "PATCH_status h oid b now s")
  from run_route_cases [OF p [unfolded PATCH_status_def]]
  show "map_option fixed_fields (orders_get (snd (PATCH_status h oid b now s)) k) =
     map_option fixed_fields (orders_get s k)"
    using update_status_fixed by (auto simp: p)
next
  obtain r s' where p: "DELETE_order h oid now s = (r, s')" by (cases "DELETE_order h oid now s")
  from run_route_cases [OF p [unfolded DELETE_order_def]]
  show "map_option fixed_fields (orders_get (snd (DELETE_order h oid now s)) k) =
     map_option fixed_fields (orders_get s k)"
    using cancel_order_fixed by (auto simp: p)
qed

end
